theory Spec2Isabelle
  imports Complex_Main "HOL-Library.Log_Nat"
begin

section \<open>Value chain analyzer: the metric computation of app.py\<close>

text \<open>
  The script app.py collects a list of actors (dictionaries with the keys name, cost and
  revenue), computes one table row per actor in a single loop that carries
  \<open>prev_revenue\<close>, and derives recommendation strings from the rows.

  The numbers of the form are Python floats (\<open>st.number_input\<close> without arguments
  returns a float) and the literals 0, 1, 100, 20 and 10 of the script are Python ints.
  Both are modelled: a float is an IEEE 754 binary64 value, and every float operation
  rounds its exact result to the nearest binary64 value, ties to even.
\<close>

subsection \<open>Python floats\<close>

text \<open>
  A float is a finite value, the negative zero, an infinity or NaN. \<open>Finite x\<close>
  carries the exact rational value \<open>x\<close>; \<open>Finite 0\<close> is the positive zero.
\<close>

datatype pyfloat = Finite rat | NegZero | PosInf | NegInf | NaN

text \<open>Rounding a rational to the nearest integer, ties to the even one.\<close>

definition round_half_even :: "rat \<Rightarrow> int" where
  "round_half_even x =
     (let f = \<lfloor>x\<rfloor>; d = x - of_int f
      in if d < 1 / 2 then f
         else if 1 / 2 < d then f + 1
         else if even f then f else f + 1)"

text \<open>
  The largest binary64 value; the binary exponent \<open>e\<close> of a non-zero rational \<open>x\<close>,
  with \<open>2 powi e \<le> \<bar>x\<bar> < 2 powi (e + 1)\<close>; and the spacing of the binary64 values
  around \<open>x\<close>: 53 significant bits, and the fixed spacing \<open>2 powi (- 1074)\<close> of the
  subnormal range below \<open>2 powi (- 1022)\<close>.
\<close>

definition max_double :: rat where
  "max_double = (2 ^ 53 - 1) * 2 ^ 971"

definition ilog2 :: "rat \<Rightarrow> int" where
  "ilog2 x =
     (let n = fst (quotient_of \<bar>x\<bar>); d = snd (quotient_of \<bar>x\<bar>);
          k = bitlen n - bitlen d
      in if 2 powi k \<le> \<bar>x\<bar> then k else k - 1)"

definition quantum :: "rat \<Rightarrow> rat" where
  "quantum x = 2 powi (max (ilog2 x) (- 1022) - 52)"

definition signed_zero :: "bool \<Rightarrow> pyfloat" where
  "signed_zero neg = (if neg then NegZero else Finite 0)"

fun signed_inf :: "bool \<Rightarrow> pyfloat" where
  "signed_inf neg = (if neg then NegInf else PosInf)"

text \<open>
  The binary64 value of an exact result: round to nearest, ties to even; a result that
  rounds to zero keeps its sign, one that rounds beyond \<open>max_double\<close> is an infinity.
\<close>

definition to_double :: "rat \<Rightarrow> pyfloat" where
  "to_double x =
     (if x = 0 then Finite 0
      else let q = quantum x; y = of_int (round_half_even (x / q)) * q
           in if y = 0 then signed_zero (x < 0)
              else if max_double < y then PosInf
              else if y < - max_double then NegInf
              else Finite y)"

fun is_negative :: "pyfloat \<Rightarrow> bool" where
  "is_negative (Finite x) = (x < 0)"
| "is_negative NegZero = True"
| "is_negative NegInf = True"
| "is_negative PosInf = False"
| "is_negative NaN = False"

fun is_zero :: "pyfloat \<Rightarrow> bool" where
  "is_zero (Finite x) = (x = 0)"
| "is_zero NegZero = True"
| "is_zero _ = False"

text \<open>
  Subtraction, multiplication and division of binary64 values. An exact zero difference
  is the positive zero, except for \<open>-0.0 - 0.0\<close>; the sign of a zero product or
  quotient is the exclusive or of the signs.
\<close>

fun fsub :: "pyfloat \<Rightarrow> pyfloat \<Rightarrow> pyfloat" where
  "fsub NaN _ = NaN"
| "fsub _ NaN = NaN"
| "fsub PosInf PosInf = NaN"
| "fsub NegInf NegInf = NaN"
| "fsub PosInf _ = PosInf"
| "fsub NegInf _ = NegInf"
| "fsub _ PosInf = NegInf"
| "fsub _ NegInf = PosInf"
| "fsub NegZero NegZero = Finite 0"
| "fsub NegZero (Finite y) = (if y = 0 then NegZero else to_double (- y))"
| "fsub (Finite x) NegZero = to_double x"
| "fsub (Finite x) (Finite y) = to_double (x - y)"

fun fmul :: "pyfloat \<Rightarrow> pyfloat \<Rightarrow> pyfloat" where
  "fmul NaN _ = NaN"
| "fmul _ NaN = NaN"
| "fmul (Finite x) (Finite y) =
     (if x = 0 \<or> y = 0 then signed_zero ((x < 0) \<noteq> (y < 0)) else to_double (x * y))"
| "fmul x y =
     (if is_zero x \<or> is_zero y
      then (if x \<in> {PosInf, NegInf} \<or> y \<in> {PosInf, NegInf} then NaN
            else signed_zero (is_negative x \<noteq> is_negative y))
      else signed_inf (is_negative x \<noteq> is_negative y))"

text \<open>Python raises before it divides by a zero, so the divisor is not a zero here.\<close>

fun fdiv :: "pyfloat \<Rightarrow> pyfloat \<Rightarrow> pyfloat" where
  "fdiv NaN _ = NaN"
| "fdiv _ NaN = NaN"
| "fdiv (Finite x) (Finite y) =
     (if x = 0 then signed_zero (y < 0) else to_double (x / y))"
| "fdiv x y =
     (if x \<in> {PosInf, NegInf}
      then (if y \<in> {PosInf, NegInf} then NaN
            else signed_inf (is_negative x \<noteq> is_negative y))
      else if y \<in> {PosInf, NegInf} then signed_zero (is_negative x \<noteq> is_negative y)
      else if is_zero x then signed_zero (is_negative x \<noteq> is_negative y)
      else signed_inf (is_negative x \<noteq> is_negative y))"

subsection \<open>Python numbers, errors and the operators of the script\<close>

datatype py_error = ZeroDivisionError | OverflowError

datatype pynum = PyInt int | PyFloat pyfloat

definition and_then :: "py_error + 'a \<Rightarrow> ('a \<Rightarrow> py_error + 'b) \<Rightarrow> py_error + 'b" where
  "and_then r f = (case r of Inl e \<Rightarrow> Inl e | Inr v \<Rightarrow> f v)"

text \<open>
  \<open>round(x, 2)\<close> on a float: infinities and NaN are returned as they are; a finite
  value is rounded to two decimals on its exact value, ties to even, and the decimal is
  converted back to the nearest float, keeping the sign of a zero. An overflow of the
  conversion raises OverflowError. \<open>round(n, 2)\<close> on an int returns the int.
\<close>

definition round2 :: "rat \<Rightarrow> rat" where
  "round2 x = of_int (round_half_even (x * 100)) / 100"

fun float_round2 :: "pyfloat \<Rightarrow> py_error + pyfloat" where
  "float_round2 (Finite x) =
     (if round2 x = 0 then Inr (signed_zero (x < 0))
      else (case to_double (round2 x) of
              PosInf \<Rightarrow> Inl OverflowError
            | NegInf \<Rightarrow> Inl OverflowError
            | y \<Rightarrow> Inr y))"
| "float_round2 x = Inr x"

text \<open>
  An int operand of a mixed operation is converted to a float first; the conversion
  raises OverflowError when the int is too large.
\<close>

definition float_of_int :: "int \<Rightarrow> py_error + pyfloat" where
  "float_of_int n =
     (case to_double (of_int n) of
        PosInf \<Rightarrow> Inl OverflowError
      | NegInf \<Rightarrow> Inl OverflowError
      | y \<Rightarrow> Inr y)"

fun as_float :: "pynum \<Rightarrow> py_error + pyfloat" where
  "as_float (PyInt n) = float_of_int n"
| "as_float (PyFloat x) = Inr x"

fun py_sub :: "pynum \<Rightarrow> pynum \<Rightarrow> py_error + pynum" where
  "py_sub (PyInt a) (PyInt b) = Inr (PyInt (a - b))"
| "py_sub a b =
     and_then (as_float a) (\<lambda>x. and_then (as_float b) (\<lambda>y. Inr (PyFloat (fsub x y))))"

fun py_mul :: "pynum \<Rightarrow> pynum \<Rightarrow> py_error + pynum" where
  "py_mul (PyInt a) (PyInt b) = Inr (PyInt (a * b))"
| "py_mul a b =
     and_then (as_float a) (\<lambda>x. and_then (as_float b) (\<lambda>y. Inr (PyFloat (fmul x y))))"

fun py_truediv :: "pynum \<Rightarrow> pynum \<Rightarrow> py_error + pynum" where
  "py_truediv (PyInt a) (PyInt b) =
     (if b = 0 then Inl ZeroDivisionError
      else if a = 0 then Inr (PyFloat (signed_zero (b < 0)))
      else (case to_double (of_int a / of_int b) of
              PosInf \<Rightarrow> Inl OverflowError
            | NegInf \<Rightarrow> Inl OverflowError
            | y \<Rightarrow> Inr (PyFloat y)))"
| "py_truediv a b =
     and_then (as_float a) (\<lambda>x. and_then (as_float b) (\<lambda>y.
       if is_zero y then Inl ZeroDivisionError else Inr (PyFloat (fdiv x y))))"

fun py_round2 :: "pynum \<Rightarrow> py_error + pynum" where
  "py_round2 (PyInt n) = Inr (PyInt n)"
| "py_round2 (PyFloat x) = and_then (float_round2 x) (\<lambda>y. Inr (PyFloat y))"

text \<open>Truth value of a number in a condition: every number but a zero is true.\<close>

fun py_truthy :: "pynum \<Rightarrow> bool" where
  "py_truthy (PyInt n) = (n \<noteq> 0)"
| "py_truthy (PyFloat x) = (\<not> is_zero x)"

text \<open>
  \<open>v < n\<close> with an int literal \<open>n\<close> on the right: Python compares a float with an
  int on the exact values; NaN is below nothing.
\<close>

fun float_less_rat :: "pyfloat \<Rightarrow> rat \<Rightarrow> bool" where
  "float_less_rat (Finite x) b = (x < b)"
| "float_less_rat NegZero b = (0 < b)"
| "float_less_rat NegInf b = True"
| "float_less_rat PosInf b = False"
| "float_less_rat NaN b = False"

fun py_less_int :: "pynum \<Rightarrow> int \<Rightarrow> bool" where
  "py_less_int (PyInt a) n = (a < n)"
| "py_less_int (PyFloat x) n = float_less_rat x (of_int n)"

subsection \<open>Actors and table rows\<close>

text \<open>
  An actor is the dictionary \<open>{"name": name, "cost": cost, "revenue": revenue}\<close> built
  from the form, so cost and revenue are floats. A row is the dictionary appended to
  \<open>data\<close>, with the keys "Actor", "Buying Price", "Selling Price", "Gross Income",
  "Gross Margin (%)", "Added Value", "Value Share (%)"; its numbers are floats or, where
  a guard put the literal 0, ints.
\<close>

record actor =
  name :: string
  cost :: pyfloat
  revenue :: pyfloat

record row =
  Actor :: string
  Buying_Price :: pynum
  Selling_Price :: pynum
  Gross_Income :: pynum
  Gross_Margin :: pynum
  Added_Value :: pynum
  Value_Share :: pynum

subsection \<open>The computation loop\<close>

text \<open>\<open>retail_price = actors[-1]["revenue"] if actors else 1\<close>\<close>

definition retail_price :: "actor list \<Rightarrow> pynum" where
  "retail_price actors = (if actors \<noteq> [] then PyFloat (revenue (last actors)) else PyInt 1)"

text \<open>The four quantities computed in the loop body, in the order of the source.\<close>

definition gross_income :: "actor \<Rightarrow> py_error + pynum" where
  "gross_income a = py_sub (PyFloat (revenue a)) (PyFloat (cost a))"

definition gross_margin :: "actor \<Rightarrow> pynum \<Rightarrow> py_error + pynum" where
  "gross_margin a gi =
     (if py_truthy (PyFloat (revenue a))
      then and_then (py_truediv gi (PyFloat (revenue a))) (\<lambda>q. py_mul q (PyInt 100))
      else Inr (PyInt 0))"

definition added_value :: "actor \<Rightarrow> pynum \<Rightarrow> py_error + pynum" where
  "added_value a prev = py_sub (PyFloat (revenue a)) prev"

definition value_share :: "pynum \<Rightarrow> pynum \<Rightarrow> py_error + pynum" where
  "value_share av retail =
     (if py_truthy retail
      then and_then (py_truediv av retail) (\<lambda>q. py_mul q (PyInt 100))
      else Inr (PyInt 0))"

text \<open>
  The loop's state is the list \<open>data\<close> built so far and the carried
  \<open>prev_revenue\<close>; the record is extensible, and the extension stands for everything
  else the process holds. One iteration computes the four quantities, rounds three of
  them, appends one row and stores the actor's revenue; an error leaves the loop.
\<close>

record loop_state =
  data :: "row list"
  prev_revenue :: pynum

definition body :: "pynum \<Rightarrow> actor \<Rightarrow> 'e loop_state_scheme \<Rightarrow> py_error + 'e loop_state_scheme" where
  "body retail a s =
     and_then (gross_income a) (\<lambda>gi.
     and_then (gross_margin a gi) (\<lambda>gm.
     and_then (added_value a (prev_revenue s)) (\<lambda>av.
     and_then (value_share av retail) (\<lambda>vs.
     and_then (py_round2 gm) (\<lambda>rgm.
     and_then (py_round2 av) (\<lambda>rav.
     and_then (py_round2 vs) (\<lambda>rvs.
       Inr (s\<lparr>data := data s @
                [\<lparr>Actor = name a,
                  Buying_Price = PyFloat (cost a),
                  Selling_Price = PyFloat (revenue a),
                  Gross_Income = gi,
                  Gross_Margin = rgm,
                  Added_Value = rav,
                  Value_Share = rvs\<rparr>],
              prev_revenue := PyFloat (revenue a)\<rparr>))))))))"

fun loop :: "pynum \<Rightarrow> actor list \<Rightarrow> 'e loop_state_scheme \<Rightarrow> py_error + 'e loop_state_scheme" where
  "loop retail [] s = Inr s"
| "loop retail (a # as) s = and_then (body retail a s) (loop retail as)"

text \<open>
  \<open>data = []\<close>, \<open>prev_revenue = 0\<close>, then the loop. \<open>run\<close> is the computation section
  in a process whose other state is \<open>env\<close>, returning the table and that state;
  \<open>computeMetrics\<close> (the name of the specification) is the table alone.
\<close>

definition initial_state :: "'e \<Rightarrow> 'e loop_state_scheme" where
  "initial_state env = \<lparr>data = [], prev_revenue = PyInt 0, \<dots> = env\<rparr>"

definition run :: "actor list \<Rightarrow> 'e \<Rightarrow> py_error + row list \<times> 'e" where
  "run actors env =
     and_then (loop (retail_price actors) actors (initial_state env))
       (\<lambda>s. Inr (data s, loop_state.more s))"

definition computeMetrics :: "actor list \<Rightarrow> py_error + row list" where
  "computeMetrics actors = and_then (run actors ()) (\<lambda>(ms, env). Inr ms)"

text \<open>
  The quantities of iteration \<open>i\<close> before rounding, computed as the loop computes
  them: the carried \<open>prev_revenue\<close> after the first \<open>i\<close> actors, and from it the added
  value and the value share of the actor at position \<open>i\<close>; and its gross margin.
\<close>

definition prev_revenue_at :: "actor list \<Rightarrow> nat \<Rightarrow> py_error + pynum" where
  "prev_revenue_at actors i =
     and_then (loop (retail_price actors) (take i actors) (initial_state ()))
       (\<lambda>s. Inr (prev_revenue s))"

definition added_value_at :: "actor list \<Rightarrow> nat \<Rightarrow> py_error + pynum" where
  "added_value_at actors i =
     and_then (prev_revenue_at actors i) (\<lambda>p. added_value (actors ! i) p)"

definition value_share_at :: "actor list \<Rightarrow> nat \<Rightarrow> py_error + pynum" where
  "value_share_at actors i =
     and_then (added_value_at actors i) (\<lambda>av. value_share av (retail_price actors))"

definition gross_margin_at :: "actor list \<Rightarrow> nat \<Rightarrow> py_error + pynum" where
  "gross_margin_at actors i =
     and_then (gross_income (actors ! i)) (\<lambda>gi. gross_margin (actors ! i) gi)"

subsection \<open>Recommendations\<close>

text \<open>
  The two f-strings of the recommendation loop. How Python prints a number inside an
  f-string is not part of the script, so the printing function \<open>fmt\<close> is a parameter;
  it receives the Python number, int or float.
\<close>

definition low_margin_message :: "(pynum \<Rightarrow> string) \<Rightarrow> row \<Rightarrow> string" where
  "low_margin_message fmt r =
     ''Actor '' @ [CHR 0x27] @ Actor r @ [CHR 0x27] @ '' has a low gross margin ('' @
     fmt (Gross_Margin r) @
     ''%). Consider reducing input costs or increasing selling price.''"

definition low_share_message :: "(pynum \<Rightarrow> string) \<Rightarrow> row \<Rightarrow> string" where
  "low_share_message fmt r =
     ''Actor '' @ [CHR 0x27] @ Actor r @ [CHR 0x27] @ '' has a small value share ('' @
     fmt (Value_Share r) @
     ''%). Consider improving value addition strategies.''"

fun recommendations_loop :: "(pynum \<Rightarrow> string) \<Rightarrow> row list \<Rightarrow> string list \<Rightarrow> string list" where
  "recommendations_loop fmt [] recs = recs"
| "recommendations_loop fmt (r # rs) recs =
     (let recs1 = (if py_less_int (Gross_Margin r) 20
                   then recs @ [low_margin_message fmt r] else recs);
          recs2 = (if py_less_int (Value_Share r) 10
                   then recs1 @ [low_share_message fmt r] else recs1)
      in recommendations_loop fmt rs recs2)"

definition recommendations :: "(pynum \<Rightarrow> string) \<Rightarrow> row list \<Rightarrow> string list" where
  "recommendations fmt rows = recommendations_loop fmt rows []"

subsection \<open>Notions used to state the properties\<close>

text \<open>The numeric fields of a row: everything but the actor's name.\<close>

definition numeric_fields :: "row \<Rightarrow> pynum \<times> pynum \<times> pynum \<times> pynum \<times> pynum \<times> pynum" where
  "numeric_fields r =
     (Buying_Price r, Selling_Price r, Gross_Income r,
      Gross_Margin r, Added_Value r, Value_Share r)"

text \<open>The example chain of the specification, F, P and R, and the same chain under other names.\<close>

definition chain_FPR :: "actor list" where
  "chain_FPR =
     [\<lparr>name = ''F'', cost = Finite 0, revenue = Finite 10\<rparr>,
      \<lparr>name = ''P'', cost = Finite 10, revenue = Finite 25\<rparr>,
      \<lparr>name = ''R'', cost = Finite 25, revenue = Finite 40\<rparr>]"

definition renamed_FPR :: "actor list" where
  "renamed_FPR =
     [\<lparr>name = ''Farmer'', cost = Finite 0, revenue = Finite 10\<rparr>,
      \<lparr>name = ''Processor'', cost = Finite 10, revenue = Finite 25\<rparr>,
      \<lparr>name = ''Retailer'', cost = Finite 25, revenue = Finite 40\<rparr>]"

text \<open>
  A float other than an infinity or NaN; and a float whose value is a binary64 value
  (the infinities, NaN and the negative zero are).
\<close>

fun is_finite :: "pyfloat \<Rightarrow> bool" where
  "is_finite (Finite x) = True"
| "is_finite NegZero = True"
| "is_finite _ = False"

fun is_double :: "pyfloat \<Rightarrow> bool" where
  "is_double (Finite x) = (to_double x = Finite x)"
| "is_double _ = True"

text \<open>
  \<open>e\<close> is \<open>x\<close> rounded to two decimals: \<open>e\<close> is the float nearest to one of the two
  multiples of 1/100 around \<open>x\<close>, and that multiple is within 1/200 of \<open>x\<close>. An
  infinity, NaN and the negative zero are left as they are, and so is an int.
\<close>

definition near_2dp :: "rat \<Rightarrow> int \<Rightarrow> pyfloat \<Rightarrow> bool" where
  "near_2dp x k e =
     (\<bar>of_int k / 100 - x\<bar> \<le> 1 / 200 \<and>
      e = (if k = 0 then signed_zero (x < 0) else to_double (of_int k / 100)))"

fun is_round2_of :: "pyfloat \<Rightarrow> pyfloat \<Rightarrow> bool" where
  "is_round2_of (Finite x) e =
     (near_2dp x \<lfloor>x * 100\<rfloor> e \<or> near_2dp x (\<lfloor>x * 100\<rfloor> + 1) e)"
| "is_round2_of x e = (e = x)"

fun num_is_round2_of :: "pynum \<Rightarrow> pynum \<Rightarrow> bool" where
  "num_is_round2_of (PyInt n) e = (e = PyInt n)"
| "num_is_round2_of (PyFloat x) (PyFloat e) = is_round2_of x e"
| "num_is_round2_of (PyFloat x) (PyInt n) = False"


definition share_chain :: "actor list" where
  "share_chain =
     [\<lparr>name = ''A'', cost = Finite 0, revenue = Finite 1999\<rparr>,
      \<lparr>name = ''B'', cost = Finite 1999, revenue = Finite 20000\<rparr>]"

definition margin_chain :: "actor list" where
  "margin_chain =
     [\<lparr>name = ''A'', cost = Finite 5, revenue = Finite 0\<rparr>,
      \<lparr>name = ''B'', cost = Finite 137, revenue = Finite 160\<rparr>]"

definition tie_chain :: "actor list" where
  "tie_chain =
     [\<lparr>name = ''A'', cost = Finite 0, revenue = Finite (1 / 2)\<rparr>,
      \<lparr>name = ''B'', cost = Finite (1 / 2), revenue = Finite 4503599627370497\<rparr>]"

definition cents_chain :: "actor list" where
  "cents_chain =
     [\<lparr>name = ''A'', cost = to_double (7 / 100), revenue = to_double (1999 / 100)\<rparr>]"

text \<open>
  Two rows for the recommendation examples, with margins 15 and 50 and shares 5 and 30,
  and how Python prints the floats 15.0 and 5.0 inside an f-string.
\<close>

definition weak_row :: row where
  "weak_row =
     \<lparr>Actor = ''W'', Buying_Price = PyFloat (Finite 85), Selling_Price = PyFloat (Finite 100),
      Gross_Income = PyFloat (Finite 15), Gross_Margin = PyFloat (Finite 15),
      Added_Value = PyFloat (Finite 5), Value_Share = PyFloat (Finite 5)\<rparr>"

definition strong_row :: row where
  "strong_row =
     \<lparr>Actor = ''S'', Buying_Price = PyFloat (Finite 50), Selling_Price = PyFloat (Finite 100),
      Gross_Income = PyFloat (Finite 50), Gross_Margin = PyFloat (Finite 50),
      Added_Value = PyFloat (Finite 30), Value_Share = PyFloat (Finite 30)\<rparr>"

definition print_example :: "pynum \<Rightarrow> string" where
  "print_example v =
     (if v = PyFloat (Finite 15) then ''15.0''
      else if v = PyFloat (Finite 5) then ''5.0''
      else ''?'')"

subsection \<open>Closed forms of the loop, used in the proofs\<close>

text \<open>
  A float within the finite range; \<open>round(x, 2)\<close> and the loop body without their
  error branches; the row emitted for one actor and the rows emitted for a list of
  actors from a given carried revenue.
\<close>

fun in_range :: "pyfloat \<Rightarrow> bool" where
  "in_range (Finite x) = (\<bar>x\<bar> \<le> max_double)"
| "in_range _ = True"

fun rounded2 :: "pyfloat \<Rightarrow> pyfloat" where
  "rounded2 (Finite x) = (if round2 x = 0 then signed_zero (x < 0) else to_double (round2 x))"
| "rounded2 x = x"

fun prev_float :: "pynum \<Rightarrow> pyfloat" where
  "prev_float (PyInt n) = Finite 0"
| "prev_float (PyFloat p) = p"

definition float_margin :: "actor \<Rightarrow> pyfloat" where
  "float_margin a = fmul (fdiv (fsub (revenue a) (cost a)) (revenue a)) (Finite 100)"

definition float_share :: "pyfloat \<Rightarrow> pyfloat \<Rightarrow> pyfloat" where
  "float_share av r = fmul (fdiv av r) (Finite 100)"

definition margin_of :: "actor \<Rightarrow> pynum" where
  "margin_of a = (if is_zero (revenue a) then PyInt 0 else PyFloat (float_margin a))"

definition share_of :: "pyfloat \<Rightarrow> pyfloat \<Rightarrow> pynum" where
  "share_of av r = (if is_zero r then PyInt 0 else PyFloat (float_share av r))"

fun rounded_num :: "pynum \<Rightarrow> pynum" where
  "rounded_num (PyInt n) = PyInt n"
| "rounded_num (PyFloat f) = PyFloat (rounded2 f)"

fun num_in_range :: "pynum \<Rightarrow> bool" where
  "num_in_range (PyInt n) = True"
| "num_in_range (PyFloat f) = in_range f"

definition row_of :: "pyfloat \<Rightarrow> pyfloat \<Rightarrow> actor \<Rightarrow> row" where
  "row_of r p a =
     \<lparr>Actor = name a,
      Buying_Price = PyFloat (cost a),
      Selling_Price = PyFloat (revenue a),
      Gross_Income = PyFloat (fsub (revenue a) (cost a)),
      Gross_Margin = rounded_num (margin_of a),
      Added_Value = PyFloat (rounded2 (fsub (revenue a) p)),
      Value_Share = rounded_num (share_of (fsub (revenue a) p) r)\<rparr>"

fun rows_of :: "pyfloat \<Rightarrow> pyfloat \<Rightarrow> actor list \<Rightarrow> row list" where
  "rows_of r p [] = []"
| "rows_of r p (a # as) = row_of r p a # rows_of r (revenue a) as"

definition prev_of :: "actor list \<Rightarrow> nat \<Rightarrow> pyfloat" where
  "prev_of actors i = (if i = 0 then Finite 0 else revenue (actors ! (i - 1)))"

section \<open>Properties\<close>

subsection \<open>Rounding to binary64\<close>

lemma rat_pos_quotient:
  assumes "0 < (a::rat)"
  obtains n d where "quotient_of a = (n, d)" "0 < n" "0 < d" "a = of_int n / of_int d"
proof -
  obtain n d where q: "quotient_of a = (n, d)"
    by (cases "quotient_of a")
  then have d: "0 < d"
    by (rule quotient_of_denom_pos)
  from q have a: "a = of_int n / of_int d"
    by (rule quotient_of_div)
  with assms d have "0 < n"
    by (simp add: zero_less_divide_iff)
  with q d a show thesis
    using that by blast
qed

lemma bitlen_powi_bounds:
  assumes "0 < n"
  shows "(2::rat) powi (bitlen n - 1) \<le> of_int n" and "of_int n < (2::rat) powi bitlen n"
proof -
  from assms have b: "1 \<le> bitlen n"
    by (simp add: bitlen_alt_def)
  from bitlen_bounds [OF assms]
  have lo: "2 ^ nat (bitlen n - 1) \<le> n" and hi: "n < 2 ^ nat (bitlen n)"
    by simp_all
  from lo have "(of_int (2 ^ nat (bitlen n - 1)) :: rat) \<le> of_int n"
    by (simp only: of_int_le_iff)
  with b show "(2::rat) powi (bitlen n - 1) \<le> of_int n"
    by (simp add: power_int_def)
  from hi have "(of_int n :: rat) < of_int (2 ^ nat (bitlen n))"
    by (simp only: of_int_less_iff)
  with b show "of_int n < (2::rat) powi bitlen n"
    by (simp add: power_int_def)
qed

lemma ilog2_bounds:
  assumes "x \<noteq> 0"
  shows "2 powi ilog2 x \<le> \<bar>x\<bar>" and "\<bar>x\<bar> < 2 powi (ilog2 x + 1)"
proof -
  from assms have "0 < \<bar>x\<bar>" by simp
  then obtain n d where q: "quotient_of \<bar>x\<bar> = (n, d)" and n: "0 < n" and d: "0 < d"
    and a: "\<bar>x\<bar> = of_int n / of_int d"
    by (rule rat_pos_quotient)
  define k where "k = bitlen n - bitlen d"
  have e: "ilog2 x = (if 2 powi k \<le> \<bar>x\<bar> then k else k - 1)"
    by (simp add: ilog2_def q k_def Let_def)
  from d have dpos: "(0::rat) < of_int d" by simp
  have "\<bar>x\<bar> < 2 powi bitlen n / 2 powi (bitlen d - 1)"
    unfolding a using bitlen_powi_bounds [OF n] bitlen_powi_bounds [OF d] n d
    by (intro frac_less) simp_all
  also have "\<dots> = 2 powi (k + 1)"
    by (simp add: k_def power_int_diff power_int_add)
  finally have hi: "\<bar>x\<bar> < 2 powi (k + 1)" .
  have "2 powi (bitlen n - 1) / 2 powi bitlen d < \<bar>x\<bar>"
    unfolding a using bitlen_powi_bounds [OF n] bitlen_powi_bounds [OF d] n d
    by (intro frac_less2) simp_all
  also have "2 powi (bitlen n - 1) / 2 powi bitlen d = (2::rat) powi (k - 1)"
    by (simp add: k_def power_int_diff power_int_add)
  finally have lo: "2 powi (k - 1) < \<bar>x\<bar>" .
  show "2 powi ilog2 x \<le> \<bar>x\<bar>"
    using lo by (simp add: e)
  show "\<bar>x\<bar> < 2 powi (ilog2 x + 1)"
    using hi by (auto simp add: e not_le)
qed

lemma round_half_even_near: "\<bar>of_int (round_half_even x) - x\<bar> \<le> 1 / 2"
proof -
  have "of_int \<lfloor>x\<rfloor> \<le> x" and "x < of_int \<lfloor>x\<rfloor> + 1"
    by linarith+
  then show ?thesis
    by (auto simp add: round_half_even_def Let_def abs_le_iff)
qed

lemma round_half_even_bound:
  assumes "\<bar>x\<bar> \<le> of_int K"
  shows "\<bar>round_half_even x\<bar> \<le> K"
proof -
  from round_half_even_near [of x] assms
  have "of_int (round_half_even x) \<le> (of_int K :: rat) + 1 / 2"
    and "- (of_int K :: rat) - 1 / 2 \<le> of_int (round_half_even x)"
    by linarith+
  then have "of_int (round_half_even x) < (of_int (K + 1) :: rat)"
    and "(of_int (- K - 1) :: rat) < of_int (round_half_even x)"
    by simp_all
  then have "round_half_even x < K + 1" and "- K - 1 < round_half_even x"
    by (simp_all only: of_int_less_iff)
  then show ?thesis
    by simp
qed

lemma quantum_pos: "0 < quantum x"
  by (simp add: quantum_def)

lemma max_double_int: "max_double = of_int ((2 ^ 53 - 1) * 2 ^ 971)"
  by (simp add: max_double_def)

lemma rounded_in_range:
  assumes "x \<noteq> 0" and "\<bar>x\<bar> \<le> max_double"
  shows "\<bar>of_int (round_half_even (x / quantum x)) * quantum x\<bar> \<le> max_double"
proof -
  define e where "e = ilog2 x"
  define m where "m = max e (- 1022)"
  have q: "quantum x = 2 powi (m - 52)"
    by (simp add: quantum_def m_def e_def)
  have lo: "2 powi e \<le> \<bar>x\<bar>" and hi: "\<bar>x\<bar> < 2 powi (e + 1)"
    using ilog2_bounds [OF assms(1)] by (simp_all add: e_def)
  have e: "e \<le> 1023"
  proof (rule ccontr)
    assume "\<not> e \<le> 1023"
    then have "(2::rat) powi 1024 \<le> 2 powi e"
      by (intro power_int_increasing) simp_all
    with lo assms(2) have "(2::rat) powi 1024 \<le> max_double"
      by linarith
    then show False
      by (simp add: max_double_def)
  qed
  show ?thesis
  proof (cases "e = 1023")
    case True
    then have q971: "quantum x = 2 ^ 971"
      by (simp add: q m_def)
    from assms(2) have "\<bar>x / quantum x\<bar> \<le> of_int (2 ^ 53 - 1)"
      by (simp add: q971 max_double_def abs_divide field_simps)
    then have "\<bar>round_half_even (x / quantum x)\<bar> \<le> 2 ^ 53 - 1"
      by (rule round_half_even_bound)
    then have "\<bar>(of_int (round_half_even (x / quantum x)) :: rat)\<bar> \<le> of_int (2 ^ 53 - 1)"
      by (simp only: of_int_abs [symmetric] of_int_le_iff)
    then have "\<bar>(of_int (round_half_even (x / quantum x)) :: rat)\<bar> * 2 ^ 971
        \<le> of_int (2 ^ 53 - 1) * 2 ^ 971"
      by (intro mult_right_mono) simp_all
    then show ?thesis
      by (simp add: q971 max_double_def abs_mult)
  next
    case False
    with e have m: "m \<le> 1022"
      by (simp add: m_def)
    have "e + 1 \<le> m + 1"
      by (simp add: m_def)
    then have "(2::rat) powi (e + 1) \<le> 2 powi (m + 1)"
      by (intro power_int_increasing) simp_all
    with hi have "\<bar>x\<bar> < 2 powi (m + 1)"
      by linarith
    also have "(2::rat) powi (m + 1) = 2 ^ 53 * 2 powi (m - 52)"
      by (simp add: power_int_diff power_int_add)
    finally have "\<bar>x / quantum x\<bar> \<le> of_int (2 ^ 53)"
      using quantum_pos [of x] by (simp add: q abs_divide field_simps)
    then have "\<bar>round_half_even (x / quantum x)\<bar> \<le> 2 ^ 53"
      by (rule round_half_even_bound)
    then have "\<bar>(of_int (round_half_even (x / quantum x)) :: rat)\<bar> \<le> of_int (2 ^ 53)"
      by (simp only: of_int_abs [symmetric] of_int_le_iff)
    then have "\<bar>(of_int (round_half_even (x / quantum x)) :: rat)\<bar> * 2 powi (m - 52)
        \<le> of_int (2 ^ 53) * 2 powi (m - 52)"
      by (intro mult_right_mono) simp_all
    also have "\<dots> = 2 powi (m + 1)"
      by (simp add: power_int_diff power_int_add)
    also have "\<dots> \<le> 2 powi 1023"
      using m by (intro power_int_increasing) simp_all
    also have "\<dots> \<le> max_double"
      by (simp add: max_double_def)
    finally show ?thesis
      by (simp add: q abs_mult)
  qed
qed

lemma ilog2_eqI:
  assumes "2 powi e \<le> \<bar>x\<bar>" and "\<bar>x\<bar> < 2 powi (e + 1)"
  shows "ilog2 x = e"
proof -
  from assms(1) have "0 < \<bar>x\<bar>"
    by (rule less_le_trans [rotated]) simp
  then have nz: "x \<noteq> 0" by simp
  have exp_less: "a < b" if "(2::rat) powi a < 2 powi b" for a b :: int
  proof (rule ccontr)
    assume "\<not> a < b"
    then have "(2::rat) powi b \<le> 2 powi a"
      by (intro power_int_increasing) simp_all
    with that show False by simp
  qed
  have h1: "(2::rat) powi e < 2 powi (ilog2 x + 1)"
    and h2: "(2::rat) powi ilog2 x < 2 powi (e + 1)"
    using ilog2_bounds [OF nz] assms by linarith+
  from exp_less [OF h1] exp_less [OF h2] show ?thesis
    by simp
qed

lemma to_double_at:
  assumes "2 powi e \<le> \<bar>x\<bar>" and "\<bar>x\<bar> < 2 powi (e + 1)"
  shows "to_double x =
     (let q = 2 powi (max e (- 1022) - 52); y = of_int (round_half_even (x / q)) * q
      in if y = 0 then signed_zero (x < 0)
         else if max_double < y then PosInf
         else if y < - max_double then NegInf
         else Finite y)"
proof -
  from assms(1) have "0 < \<bar>x\<bar>"
    by (rule less_le_trans [rotated]) simp
  then have nz: "x \<noteq> 0" by simp
  with ilog2_eqI [OF assms] show ?thesis
    by (simp add: to_double_def quantum_def)
qed

lemma floor_rat_numeral:
  "\<lfloor>numeral a / numeral b :: rat\<rfloor> = numeral a div numeral b"
  "\<lfloor>- (numeral a / numeral b) :: rat\<rfloor> = - numeral a div numeral b"
  using floor_divide_of_int_eq [of "numeral a" "numeral b", where ?'a = rat]
    floor_divide_of_int_eq [of "- numeral a" "numeral b", where ?'a = rat]
  by simp_all

lemmas eval_double = round_half_even_def Let_def floor_rat_numeral max_double_def signed_zero_def

lemmas eval_prog = computeMetrics_def run_def initial_state_def retail_price_def body_def gross_income_def
  gross_margin_def added_value_def value_share_def and_then_def float_of_int_def round2_def

lemma to_double_zero: "to_double 0 = Finite 0"
  by (simp add: to_double_def)

subsection \<open>Rounding to two decimals never overflows\<close>

lemma in_range_signed_zero: "in_range (signed_zero b)"
  by (simp add: signed_zero_def max_double_def)

lemma in_range_to_double: "in_range (to_double x)"
  by (simp add: to_double_def Let_def in_range_signed_zero abs_le_iff)
     (simp add: max_double_def)

lemma in_range_fsub: "in_range (fsub x y)"
  by (cases x; cases y) (simp_all add: in_range_to_double max_double_def)

lemma in_range_fmul: "in_range (fmul x y)"
  by (cases x; cases y) (simp_all add: in_range_to_double in_range_signed_zero)

lemma in_range_fdiv: "in_range (fdiv x y)"
  by (cases x; cases y) (simp_all add: in_range_to_double in_range_signed_zero)

lemma round2_in_range:
  assumes "\<bar>x\<bar> \<le> max_double"
  shows "\<bar>round2 x\<bar> \<le> max_double"
proof -
  from assms have "\<bar>x * 100\<bar> \<le> of_int ((2 ^ 53 - 1) * 2 ^ 971 * 100)"
    by (simp add: max_double_def abs_mult)
  then have "\<bar>round_half_even (x * 100)\<bar> \<le> (2 ^ 53 - 1) * 2 ^ 971 * 100"
    by (rule round_half_even_bound)
  then have "\<bar>(of_int (round_half_even (x * 100)) :: rat)\<bar>
      \<le> of_int ((2 ^ 53 - 1) * 2 ^ 971 * 100)"
    by (simp only: of_int_abs [symmetric] of_int_le_iff)
  then show ?thesis
    by (simp add: round2_def max_double_def)
qed

lemma to_double_finite:
  assumes "\<bar>x\<bar> \<le> max_double"
  shows "to_double x \<noteq> PosInf \<and> to_double x \<noteq> NegInf"
proof (cases "x = 0")
  case True
  then show ?thesis
    by (simp add: to_double_def)
next
  case False
  from rounded_in_range [OF False assms] show ?thesis
    using False by (auto simp add: to_double_def Let_def signed_zero_def abs_le_iff)
qed

lemma float_round2_ok:
  assumes "in_range f"
  shows "float_round2 f = Inr (rounded2 f)"
proof (cases f)
  case (Finite x)
  with assms have "\<bar>round2 x\<bar> \<le> max_double"
    by (simp add: round2_in_range)
  from to_double_finite [OF this] Finite show ?thesis
    by (simp split: pyfloat.splits)
qed simp_all

lemma py_round2_ok:
  assumes "num_in_range v"
  shows "py_round2 v = Inr (rounded_num v)"
  using assms by (cases v) (simp_all add: float_round2_ok and_then_def)

lemma num_in_range_margin: "num_in_range (margin_of a)"
  by (simp add: margin_of_def float_margin_def in_range_fmul)

lemma num_in_range_share: "num_in_range (share_of av r)"
  by (simp add: share_of_def float_share_def in_range_fmul)

subsection \<open>The loop in closed form\<close>

lemma to_double_100: "to_double 100 = Finite 100"
  by (simp add: to_double_at [of 6] eval_double)

lemma float_of_int_100: "float_of_int 100 = Inr (Finite 100)"
  by (simp add: float_of_int_def to_double_100)

lemma float_of_int_0: "float_of_int 0 = Inr (Finite 0)"
  by (simp add: float_of_int_def to_double_zero)

lemma gross_income_closed:
  "gross_income a = Inr (PyFloat (fsub (revenue a) (cost a)))"
  by (simp add: gross_income_def and_then_def)

lemma gross_margin_closed:
  "gross_margin a (PyFloat (fsub (revenue a) (cost a))) = Inr (margin_of a)"
  by (simp add: gross_margin_def and_then_def float_of_int_100 margin_of_def float_margin_def)

lemma added_value_closed:
  assumes "p = PyInt 0 \<or> (\<exists>f. p = PyFloat f)"
  shows "added_value a p = Inr (PyFloat (fsub (revenue a) (prev_float p)))"
  using assms by (auto simp add: added_value_def and_then_def float_of_int_0)

lemma value_share_closed:
  "value_share (PyFloat av) (PyFloat r) = Inr (share_of av r)"
  by (simp add: value_share_def and_then_def float_of_int_100 share_of_def float_share_def)

lemma body_closed:
  fixes s :: "'e loop_state_scheme"
  assumes "prev_revenue s = PyInt 0 \<or> (\<exists>f. prev_revenue s = PyFloat f)"
  shows "body (PyFloat r) a s =
     Inr (s\<lparr>data := data s @ [row_of r (prev_float (prev_revenue s)) a],
            prev_revenue := PyFloat (revenue a)\<rparr>)"
proof -
  have av: "py_round2 (PyFloat (fsub (revenue a) p)) =
      Inr (PyFloat (rounded2 (fsub (revenue a) p)))" for p
    using py_round2_ok [of "PyFloat (fsub (revenue a) p)"] by (simp add: in_range_fsub)
  show ?thesis
    unfolding body_def gross_income_closed added_value_closed [OF assms]
    by (simp add: and_then_def gross_margin_closed value_share_closed av row_of_def
        py_round2_ok num_in_range_margin num_in_range_share del: py_round2.simps)
qed

lemma loop_closed:
  fixes s :: "'e loop_state_scheme"
  assumes "prev_revenue s = PyInt 0 \<or> (\<exists>f. prev_revenue s = PyFloat f)"
  shows "loop (PyFloat r) as s =
     Inr (s\<lparr>data := data s @ rows_of r (prev_float (prev_revenue s)) as,
            prev_revenue := (if as = [] then prev_revenue s else PyFloat (revenue (last as)))\<rparr>)"
  using assms
proof (induction as arbitrary: s)
  case Nil
  then show ?case by simp
next
  case (Cons a as)
  let ?s' = "s\<lparr>data := data s @ [row_of r (prev_float (prev_revenue s)) a],
            prev_revenue := PyFloat (revenue a)\<rparr>"
  have "prev_revenue ?s' = PyInt 0 \<or> (\<exists>f. prev_revenue ?s' = PyFloat f)"
    by simp
  from Cons.IH [OF this] body_closed [OF Cons.prems, of r a] show ?case
    by (simp add: and_then_def)
qed

lemma run_closed:
  "run actors env =
     Inr (rows_of (revenue (last actors)) (Finite 0) actors, env)"
proof (cases "actors = []")
  case True
  then show ?thesis
    by (simp add: run_def initial_state_def and_then_def)
next
  case False
  then show ?thesis
    by (simp add: run_def initial_state_def retail_price_def loop_closed and_then_def)
qed

lemma computeMetrics_closed:
  "computeMetrics actors = Inr (rows_of (revenue (last actors)) (Finite 0) actors)"
  by (simp add: computeMetrics_def run_closed and_then_def)

lemma length_rows_of: "length (rows_of r p as) = length as"
  by (induction as arbitrary: p) simp_all

lemma rows_of_nth:
  "i < length as \<Longrightarrow>
   rows_of r p as ! i = row_of r (if i = 0 then p else revenue (as ! (i - 1))) (as ! i)"
proof (induction as arbitrary: p i)
  case Nil
  then show ?case by simp
next
  case (Cons a as)
  show ?case
  proof (cases i)
    case 0
    then show ?thesis by simp
  next
    case (Suc j)
    with Cons.prems have "j < length as" by simp
    from Cons.IH [OF this, of "revenue a"] Suc show ?thesis
      by (cases j) simp_all
  qed
qed

lemma rows_nth:
  "i < length actors \<Longrightarrow>
   rows_of r (Finite 0) actors ! i = row_of r (prev_of actors i) (actors ! i)"
  by (simp add: rows_of_nth prev_of_def)

lemma prev_revenue_at_closed:
  assumes "i \<le> length actors"
  shows "prev_revenue_at actors i =
     Inr (if i = 0 then PyInt 0 else PyFloat (revenue (actors ! (i - 1))))"
proof (cases "actors = []")
  case True
  with assms show ?thesis
    by (simp add: prev_revenue_at_def initial_state_def and_then_def)
next
  case False
  with assms show ?thesis
    by (cases "i = 0")
       (auto simp add: prev_revenue_at_def initial_state_def retail_price_def loop_closed
          and_then_def last_conv_nth min_def)
qed

lemma row_of_sel:
  "Actor (row_of r p a) = name a"
  "Buying_Price (row_of r p a) = PyFloat (cost a)"
  "Selling_Price (row_of r p a) = PyFloat (revenue a)"
  "Gross_Income (row_of r p a) = PyFloat (fsub (revenue a) (cost a))"
  "Gross_Margin (row_of r p a) = rounded_num (margin_of a)"
  "Added_Value (row_of r p a) = PyFloat (rounded2 (fsub (revenue a) p))"
  "Value_Share (row_of r p a) = rounded_num (share_of (fsub (revenue a) p) r)"
  by (simp_all add: row_of_def)

lemma rows_of_maps:
  "map Actor (rows_of r p as) = map name as"
  "map Buying_Price (rows_of r p as) = map (\<lambda>a. PyFloat (cost a)) as"
  "map Selling_Price (rows_of r p as) = map (\<lambda>a. PyFloat (revenue a)) as"
  "map Gross_Income (rows_of r p as) = map (\<lambda>a. PyFloat (fsub (revenue a) (cost a))) as"
  by (induction as arbitrary: p) (simp_all add: row_of_sel)

lemma recommendations_loop_closed:
  "recommendations_loop fmt rows recs =
     recs @ concat (map (\<lambda>r.
       (if py_less_int (Gross_Margin r) 20 then [low_margin_message fmt r] else []) @
       (if py_less_int (Value_Share r) 10 then [low_share_message fmt r] else [])) rows)"
  by (induction rows arbitrary: recs) (simp_all add: Let_def)

lemma length_recommendations:
  "length (recommendations fmt rows) =
     sum_list (map (\<lambda>r. (if py_less_int (Gross_Margin r) 20 then 1 else 0) +
                          (if py_less_int (Value_Share r) 10 then 1 else 0)) rows)"
  by (induction rows)
     (simp_all add: recommendations_def recommendations_loop_closed)

lemma rows_of_names_irrelevant:
  "map cost as = map cost bs \<Longrightarrow> map revenue as = map revenue bs \<Longrightarrow>
   map numeric_fields (rows_of r p as) = map numeric_fields (rows_of r p bs)"
proof (induction as arbitrary: bs p)
  case Nil
  then show ?case by simp
next
  case (Cons a as)
  then obtain b bs' where bs: "bs = b # bs'"
    by (cases bs) auto
  with Cons.prems have heads: "cost a = cost b" "revenue a = revenue b"
    and tails: "map cost as = map cost bs'" "map revenue as = map revenue bs'"
    by simp_all
  from Cons.IH [OF tails, of "revenue b"] heads bs show ?case
    by (simp add: numeric_fields_def row_of_sel margin_of_def float_margin_def)
qed

lemma last_revenue_names_irrelevant:
  fixes as bs :: "actor list"
  assumes "map revenue as = map revenue bs"
  shows "revenue (last as) = revenue (last bs)"
proof (cases "as = []")
  case True
  with assms show ?thesis by simp
next
  case False
  with assms have "bs \<noteq> []" by auto
  have "revenue (last as) = last (map revenue as)"
    using False by (simp add: last_map)
  also have "\<dots> = last (map revenue bs)"
    using assms by simp
  also have "\<dots> = revenue (last bs)"
    using \<open>bs \<noteq> []\<close> by (simp add: last_map)
  finally show ?thesis .
qed

lemma map_eq_factor:
  assumes "map f xs = map f ys" and same: "\<And>x y. f x = f y \<Longrightarrow> g x = g y"
  shows "map g xs = map g ys"
proof (rule nth_equalityI)
  from assms(1) have len: "length xs = length ys"
    by (rule map_eq_imp_length_eq)
  then show "length (map g xs) = length (map g ys)"
    by simp
  fix i
  assume "i < length (map g xs)"
  then have i: "i < length xs" "i < length ys"
    using len by simp_all
  from assms(1) have "map f xs ! i = map f ys ! i"
    by simp
  with i have "f (xs ! i) = f (ys ! i)"
    by simp
  then have "g (xs ! i) = g (ys ! i)"
    by (rule same)
  with i show "map g xs ! i = map g ys ! i"
    by simp
qed

lemma round_half_even_cases:
  "round_half_even x = \<lfloor>x\<rfloor> \<or> round_half_even x = \<lfloor>x\<rfloor> + 1"
  by (simp add: round_half_even_def Let_def)

lemma is_round2_of_rounded2: "is_round2_of f (rounded2 f)"
proof (cases f)
  case (Finite x)
  define k where "k = round_half_even (x * 100)"
  have near: "\<bar>of_int k / 100 - x\<bar> \<le> 1 / 200"
    using round_half_even_near [of "x * 100"] by (simp add: k_def abs_le_iff field_simps)
  have r: "round2 x = of_int k / 100"
    by (simp add: round2_def k_def)
  have "near_2dp x k (rounded2 (Finite x))"
    using near by (simp add: near_2dp_def r)
  moreover have "k = \<lfloor>x * 100\<rfloor> \<or> k = \<lfloor>x * 100\<rfloor> + 1"
    unfolding k_def by (rule round_half_even_cases)
  ultimately show ?thesis
    using Finite by auto
qed simp_all

lemma num_is_round2_of_rounded: "num_is_round2_of v (rounded_num v)"
  by (cases v) (simp_all add: is_round2_of_rounded2)

lemma to_double_not_NaN: "to_double x \<noteq> NaN"
  by (simp add: to_double_def Let_def signed_zero_def)

lemma fsub_not_NaN: "is_finite x \<Longrightarrow> is_finite y \<Longrightarrow> fsub x y \<noteq> NaN"
  by (cases x; cases y) (simp_all add: to_double_not_NaN)

lemma fdiv_not_NaN: "x \<noteq> NaN \<Longrightarrow> is_finite y \<Longrightarrow> fdiv x y \<noteq> NaN"
  by (cases x; cases y) (simp_all add: to_double_not_NaN signed_zero_def)

lemma fmul_100_not_NaN: "x \<noteq> NaN \<Longrightarrow> fmul x (Finite 100) \<noteq> NaN"
  by (cases x) (simp_all add: to_double_not_NaN signed_zero_def)

lemma rounded2_not_NaN: "x \<noteq> NaN \<Longrightarrow> rounded2 x \<noteq> NaN"
  by (cases x) (simp_all add: to_double_not_NaN signed_zero_def)

lemma float_margin_not_NaN:
  "is_finite (cost a) \<Longrightarrow> is_finite (revenue a) \<Longrightarrow> rounded2 (float_margin a) \<noteq> NaN"
  by (simp add: float_margin_def rounded2_not_NaN fmul_100_not_NaN fdiv_not_NaN fsub_not_NaN)

lemma fsub_zero_right: "is_double f \<Longrightarrow> fsub f (Finite 0) = f"
  by (cases f) simp_all

lemma gross_margin_at_closed: "gross_margin_at actors i = Inr (margin_of (actors ! i))"
  by (simp add: gross_margin_at_def gross_income_closed gross_margin_closed and_then_def)

lemma added_value_at_closed:
  assumes "i < length actors"
  shows "added_value_at actors i =
     Inr (PyFloat (fsub (revenue (actors ! i)) (prev_of actors i)))"
proof -
  from assms have "i \<le> length actors" by simp
  from prev_revenue_at_closed [OF this] show ?thesis
    by (simp add: added_value_at_def and_then_def added_value_closed prev_of_def)
qed

lemma value_share_at_closed:
  assumes "i < length actors"
  shows "value_share_at actors i =
     Inr (share_of (fsub (revenue (actors ! i)) (prev_of actors i)) (revenue (last actors)))"
proof -
  from assms have "actors \<noteq> []" by auto
  then show ?thesis
    by (simp add: value_share_at_def added_value_at_closed [OF assms] and_then_def
        retail_price_def value_share_closed)
qed

lemma computeMetrics_nth:
  assumes "i < length actors"
  shows "rows_of (revenue (last actors)) (Finite 0) actors ! i =
     row_of (revenue (last actors)) (prev_of actors i) (actors ! i)"
  using assms by (rule rows_nth)

subsection \<open>Retail price and value share\<close>

text \<open>
  C1. The retail price is the int 1 for the empty chain and the revenue of the last
  actor otherwise; the empty chain gives the empty table. For the actor at every position
  of any chain, the added value of its iteration is the float difference of its revenue
  and the revenue of the actor before it (0.0 before the first); the value share of its
  iteration is the int 0 when the retail price is a zero and otherwise the float result
  of (added value / retail price) * 100; and the emitted field is Python's
  \<open>round(value share, 2)\<close>, which does not raise: the float nearest to a multiple of
  1/100 within 1/200 of the unrounded value, and the int 0 when the retail price is a
  zero. Division and multiplication are the float operations of the script, each rounded
  to binary64.
\<close>

theorem retail_price_value_share:
  "retail_price [] = PyInt 1 \<and>
   retail_price (front @ [a]) = PyFloat (revenue a) \<and>
   computeMetrics [] = Inr [] \<and>
   (\<exists>ms. computeMetrics actors = Inr ms \<and>
      (\<forall>i<length actors.
         \<exists>av vs.
           added_value_at actors i = Inr (PyFloat av) \<and>
           av = fsub (revenue (actors ! i))
                  (if i = 0 then Finite 0 else revenue (actors ! (i - 1))) \<and>
           value_share_at actors i = Inr vs \<and>
           vs = (if is_zero (revenue (last actors)) then PyInt 0
                 else PyFloat (fmul (fdiv av (revenue (last actors))) (Finite 100))) \<and>
           py_round2 vs = Inr (Value_Share (ms ! i)) \<and>
           num_is_round2_of vs (Value_Share (ms ! i)) \<and>
           (is_zero (revenue (last actors)) \<longrightarrow> Value_Share (ms ! i) = PyInt 0)))"
proof (intro conjI)
  show "retail_price [] = PyInt 1"
    by (simp add: retail_price_def)
  show "retail_price (front @ [a]) = PyFloat (revenue a)"
    by (simp add: retail_price_def)
  show "computeMetrics [] = Inr []"
    by (simp add: computeMetrics_closed)
  let ?ms = "rows_of (revenue (last actors)) (Finite 0) actors"
  have "\<exists>av vs.
           added_value_at actors i = Inr (PyFloat av) \<and>
           av = fsub (revenue (actors ! i))
                  (if i = 0 then Finite 0 else revenue (actors ! (i - 1))) \<and>
           value_share_at actors i = Inr vs \<and>
           vs = (if is_zero (revenue (last actors)) then PyInt 0
                 else PyFloat (fmul (fdiv av (revenue (last actors))) (Finite 100))) \<and>
           py_round2 vs = Inr (Value_Share (?ms ! i)) \<and>
           num_is_round2_of vs (Value_Share (?ms ! i)) \<and>
           (is_zero (revenue (last actors)) \<longrightarrow> Value_Share (?ms ! i) = PyInt 0)"
    if i: "i < length actors" for i
  proof -
    let ?av = "fsub (revenue (actors ! i)) (prev_of actors i)"
    let ?vs = "share_of ?av (revenue (last actors))"
    have row: "Value_Share (?ms ! i) = rounded_num ?vs"
      by (simp add: rows_nth [OF i] row_of_sel)
    have "added_value_at actors i = Inr (PyFloat ?av)"
      by (rule added_value_at_closed [OF i])
    moreover have "?av = fsub (revenue (actors ! i))
                  (if i = 0 then Finite 0 else revenue (actors ! (i - 1)))"
      by (simp add: prev_of_def)
    moreover have "value_share_at actors i = Inr ?vs"
      by (rule value_share_at_closed [OF i])
    moreover have "?vs = (if is_zero (revenue (last actors)) then PyInt 0
                 else PyFloat (fmul (fdiv ?av (revenue (last actors))) (Finite 100)))"
      by (simp add: share_of_def float_share_def)
    moreover have "py_round2 ?vs = Inr (Value_Share (?ms ! i))"
      unfolding row by (rule py_round2_ok) (rule num_in_range_share)
    moreover have "num_is_round2_of ?vs (Value_Share (?ms ! i))"
      unfolding row by (rule num_is_round2_of_rounded)
    moreover have "is_zero (revenue (last actors)) \<longrightarrow> Value_Share (?ms ! i) = PyInt 0"
      unfolding row by (simp add: share_of_def)
    ultimately show ?thesis
      by blast
  qed
  then show "\<exists>ms. computeMetrics actors = Inr ms \<and>
      (\<forall>i<length actors.
         \<exists>av vs.
           added_value_at actors i = Inr (PyFloat av) \<and>
           av = fsub (revenue (actors ! i))
                  (if i = 0 then Finite 0 else revenue (actors ! (i - 1))) \<and>
           value_share_at actors i = Inr vs \<and>
           vs = (if is_zero (revenue (last actors)) then PyInt 0
                 else PyFloat (fmul (fdiv av (revenue (last actors))) (Finite 100))) \<and>
           py_round2 vs = Inr (Value_Share (ms ! i)) \<and>
           num_is_round2_of vs (Value_Share (ms ! i)) \<and>
           (is_zero (revenue (last actors)) \<longrightarrow> Value_Share (ms ! i) = PyInt 0))"
    using computeMetrics_closed [of actors] by blast
qed

theorem retail_price_value_share_witness:
  "\<exists>ms. computeMetrics share_chain = Inr ms \<and>
     value_share_at share_chain 0 = Inr (PyFloat (Finite (5626684784446013 / 562949953421312))) \<and>
     Value_Share (ms ! 0) = PyFloat (to_double (999 / 100)) \<and>
     py_less_int (Value_Share (ms ! 0)) 10"
proof -
  from retail_price_value_share [of _ _ share_chain]
  obtain ms where run: "computeMetrics share_chain = Inr ms"
    and shares: "\<forall>i<length share_chain.
         \<exists>av vs.
           added_value_at share_chain i = Inr (PyFloat av) \<and>
           av = fsub (revenue (share_chain ! i))
                  (if i = 0 then Finite 0 else revenue (share_chain ! (i - 1))) \<and>
           value_share_at share_chain i = Inr vs \<and>
           vs = (if is_zero (revenue (last share_chain)) then PyInt 0
                 else PyFloat (fmul (fdiv av (revenue (last share_chain))) (Finite 100))) \<and>
           py_round2 vs = Inr (Value_Share (ms ! i)) \<and>
           num_is_round2_of vs (Value_Share (ms ! i)) \<and>
           (is_zero (revenue (last share_chain)) \<longrightarrow> Value_Share (ms ! i) = PyInt 0)"
    by blast
  have "(0::nat) < length share_chain"
    by (simp add: share_chain_def)
  with shares obtain av vs where av: "av = fsub (revenue (share_chain ! 0))
                  (if (0::nat) = 0 then Finite 0 else revenue (share_chain ! (0 - 1)))"
    and share: "value_share_at share_chain 0 = Inr vs"
    and vs: "vs = (if is_zero (revenue (last share_chain)) then PyInt 0
                 else PyFloat (fmul (fdiv av (revenue (last share_chain))) (Finite 100)))"
    and field: "py_round2 vs = Inr (Value_Share (ms ! 0))"
    by blast
  have "av = Finite 1999"
    unfolding av by (simp add: share_chain_def eval_double to_double_at [of 10])
  with vs have vs_val: "vs = PyFloat (Finite (5626684784446013 / 562949953421312))"
    by (simp add: share_chain_def eval_double to_double_at [of "-4"] to_double_at [of 3])
  have nine: "to_double (999 / 100) = Finite (5623870034678907 / 562949953421312)"
    by (simp add: eval_double to_double_at [of 3])
  from field have "Value_Share (ms ! 0) = PyFloat (to_double (999 / 100))"
    unfolding vs_val nine
    by (simp add: and_then_def round2_def eval_double to_double_at [of 3])
  with run share vs_val nine show ?thesis
    by simp
qed

subsection \<open>Gross margin\<close>

text \<open>
  C2. The computation returns a table for every chain, so no error is raised. For the
  actor at every position the gross income is the float difference revenue - cost; the
  gross margin of the iteration is the int 0 when the revenue is a zero and otherwise the
  float result of (gross income / revenue) * 100; the emitted field is Python's
  \<open>round(gross margin, 2)\<close>, hence the int 0 when the revenue is a zero; and when cost
  and revenue are finite, neither the gross margin nor the emitted field is NaN.
\<close>

theorem gross_margin_guarded:
  "\<exists>ms. computeMetrics actors = Inr ms \<and>
     (\<forall>i<length actors.
        \<exists>gi gm.
          gross_income (actors ! i) = Inr (PyFloat gi) \<and>
          gi = fsub (revenue (actors ! i)) (cost (actors ! i)) \<and>
          gross_margin_at actors i = Inr gm \<and>
          gm = (if is_zero (revenue (actors ! i)) then PyInt 0
                else PyFloat (fmul (fdiv gi (revenue (actors ! i))) (Finite 100))) \<and>
          py_round2 gm = Inr (Gross_Margin (ms ! i)) \<and>
          num_is_round2_of gm (Gross_Margin (ms ! i)) \<and>
          (is_zero (revenue (actors ! i)) \<longrightarrow> Gross_Margin (ms ! i) = PyInt 0) \<and>
          (is_finite (cost (actors ! i)) \<and> is_finite (revenue (actors ! i)) \<longrightarrow>
             gm \<noteq> PyFloat NaN \<and> Gross_Margin (ms ! i) \<noteq> PyFloat NaN))"
proof -
  let ?ms = "rows_of (revenue (last actors)) (Finite 0) actors"
  have "\<exists>gi gm.
          gross_income (actors ! i) = Inr (PyFloat gi) \<and>
          gi = fsub (revenue (actors ! i)) (cost (actors ! i)) \<and>
          gross_margin_at actors i = Inr gm \<and>
          gm = (if is_zero (revenue (actors ! i)) then PyInt 0
                else PyFloat (fmul (fdiv gi (revenue (actors ! i))) (Finite 100))) \<and>
          py_round2 gm = Inr (Gross_Margin (?ms ! i)) \<and>
          num_is_round2_of gm (Gross_Margin (?ms ! i)) \<and>
          (is_zero (revenue (actors ! i)) \<longrightarrow> Gross_Margin (?ms ! i) = PyInt 0) \<and>
          (is_finite (cost (actors ! i)) \<and> is_finite (revenue (actors ! i)) \<longrightarrow>
             gm \<noteq> PyFloat NaN \<and> Gross_Margin (?ms ! i) \<noteq> PyFloat NaN)"
    if i: "i < length actors" for i
  proof -
    let ?a = "actors ! i"
    let ?gm = "margin_of ?a"
    have row: "Gross_Margin (?ms ! i) = rounded_num ?gm"
      by (simp add: rows_nth [OF i] row_of_sel)
    have "gross_income ?a = Inr (PyFloat (fsub (revenue ?a) (cost ?a)))"
      by (rule gross_income_closed)
    moreover have "gross_margin_at actors i = Inr ?gm"
      by (rule gross_margin_at_closed)
    moreover have "?gm = (if is_zero (revenue ?a) then PyInt 0
                else PyFloat (fmul (fdiv (fsub (revenue ?a) (cost ?a)) (revenue ?a)) (Finite 100)))"
      by (simp add: margin_of_def float_margin_def)
    moreover have "py_round2 ?gm = Inr (Gross_Margin (?ms ! i))"
      unfolding row by (rule py_round2_ok) (rule num_in_range_margin)
    moreover have "num_is_round2_of ?gm (Gross_Margin (?ms ! i))"
      unfolding row by (rule num_is_round2_of_rounded)
    moreover have "is_zero (revenue ?a) \<longrightarrow> Gross_Margin (?ms ! i) = PyInt 0"
      unfolding row by (simp add: margin_of_def)
    moreover have "is_finite (cost ?a) \<and> is_finite (revenue ?a) \<longrightarrow>
             ?gm \<noteq> PyFloat NaN \<and> Gross_Margin (?ms ! i) \<noteq> PyFloat NaN"
      unfolding row using float_margin_not_NaN [of ?a]
      by (auto simp add: margin_of_def float_margin_def fmul_100_not_NaN fdiv_not_NaN
          fsub_not_NaN)
    ultimately show ?thesis
      by blast
  qed
  then show ?thesis
    using computeMetrics_closed [of actors] by blast
qed

theorem gross_margin_guarded_witness:
  "\<exists>ms. computeMetrics margin_chain = Inr ms \<and>
     Gross_Margin (ms ! 0) = PyInt 0 \<and>
     gross_margin_at margin_chain 1 = Inr (PyFloat (Finite (8092405580431359 / 562949953421312))) \<and>
     Gross_Margin (ms ! 1) = PyFloat (to_double (1437 / 100)) \<and>
     Gross_Margin (ms ! 1) \<noteq> PyFloat NaN"
proof -
  from gross_margin_guarded [of margin_chain]
  obtain ms where run: "computeMetrics margin_chain = Inr ms"
    and margins: "\<forall>i<length margin_chain.
        \<exists>gi gm.
          gross_income (margin_chain ! i) = Inr (PyFloat gi) \<and>
          gi = fsub (revenue (margin_chain ! i)) (cost (margin_chain ! i)) \<and>
          gross_margin_at margin_chain i = Inr gm \<and>
          gm = (if is_zero (revenue (margin_chain ! i)) then PyInt 0
                else PyFloat (fmul (fdiv gi (revenue (margin_chain ! i))) (Finite 100))) \<and>
          py_round2 gm = Inr (Gross_Margin (ms ! i)) \<and>
          num_is_round2_of gm (Gross_Margin (ms ! i)) \<and>
          (is_zero (revenue (margin_chain ! i)) \<longrightarrow> Gross_Margin (ms ! i) = PyInt 0) \<and>
          (is_finite (cost (margin_chain ! i)) \<and> is_finite (revenue (margin_chain ! i)) \<longrightarrow>
             gm \<noteq> PyFloat NaN \<and> Gross_Margin (ms ! i) \<noteq> PyFloat NaN)"
    by blast
  have len: "(0::nat) < length margin_chain" "(1::nat) < length margin_chain"
    by (simp_all add: margin_chain_def)
  have zero: "is_zero (revenue (margin_chain ! 0))"
    by (simp add: margin_chain_def)
  from margins len(1) zero have first: "Gross_Margin (ms ! 0) = PyInt 0"
    by blast
  have fin: "is_finite (cost (margin_chain ! 1)) \<and> is_finite (revenue (margin_chain ! 1))"
    by (simp add: margin_chain_def)
  from margins len(2) fin obtain gi gm where
    gi: "gi = fsub (revenue (margin_chain ! 1)) (cost (margin_chain ! 1))"
    and at: "gross_margin_at margin_chain 1 = Inr gm"
    and gm: "gm = (if is_zero (revenue (margin_chain ! 1)) then PyInt 0
                else PyFloat (fmul (fdiv gi (revenue (margin_chain ! 1))) (Finite 100)))"
    and field: "py_round2 gm = Inr (Gross_Margin (ms ! 1))"
    and nan: "Gross_Margin (ms ! 1) \<noteq> PyFloat NaN"
    by blast
  have "gi = Finite 23"
    unfolding gi by (simp add: margin_chain_def eval_double to_double_at [of 4])
  with gm have gm_val: "gm = PyFloat (Finite (8092405580431359 / 562949953421312))"
    by (simp add: margin_chain_def eval_double to_double_at [of "-3"] to_double_at [of 3])
  have cents: "to_double (1437 / 100) = Finite (8089590830664253 / 562949953421312)"
    by (simp add: eval_double to_double_at [of 3])
  from field have "Gross_Margin (ms ! 1) = PyFloat (to_double (1437 / 100))"
    unfolding gm_val cents
    by (simp add: and_then_def round2_def eval_double to_double_at [of 3])
  with run first at gm_val nan show ?thesis
    by simp
qed

subsection \<open>Added value and the carried revenue\<close>

text \<open>
  C3. The carried \<open>prev_revenue\<close> is the int 0 when the loop starts and the revenue of
  the actor at position \<open>i\<close> after iteration \<open>i\<close>. The added value computed for the
  actor at position \<open>i\<close> is the float difference of its revenue and the carried value:
  for the first actor its own revenue (a binary64 value minus 0.0 is that value), and for
  a later actor its revenue minus the revenue of the actor at position \<open>i - 1\<close>. The
  emitted field is Python's \<open>round(added value, 2)\<close>.
\<close>

theorem added_value_chain:
  "\<exists>ms. computeMetrics actors = Inr ms \<and>
     prev_revenue_at actors 0 = Inr (PyInt 0) \<and>
     (\<forall>i<length actors.
        prev_revenue_at actors (Suc i) = Inr (PyFloat (revenue (actors ! i))) \<and>
        (\<exists>p av.
           prev_revenue_at actors i = Inr p \<and>
           added_value (actors ! i) p = Inr (PyFloat av) \<and>
           added_value_at actors i = Inr (PyFloat av) \<and>
           av = fsub (revenue (actors ! i))
                  (if i = 0 then Finite 0 else revenue (actors ! (i - 1))) \<and>
           (i = 0 \<and> is_double (revenue (actors ! 0)) \<longrightarrow> av = revenue (actors ! 0)) \<and>
           py_round2 (PyFloat av) = Inr (Added_Value (ms ! i)) \<and>
           num_is_round2_of (PyFloat av) (Added_Value (ms ! i))))"
proof -
  let ?ms = "rows_of (revenue (last actors)) (Finite 0) actors"
  have start: "prev_revenue_at actors 0 = Inr (PyInt 0)"
    by (simp add: prev_revenue_at_closed)
  have "prev_revenue_at actors (Suc i) = Inr (PyFloat (revenue (actors ! i))) \<and>
        (\<exists>p av.
           prev_revenue_at actors i = Inr p \<and>
           added_value (actors ! i) p = Inr (PyFloat av) \<and>
           added_value_at actors i = Inr (PyFloat av) \<and>
           av = fsub (revenue (actors ! i))
                  (if i = 0 then Finite 0 else revenue (actors ! (i - 1))) \<and>
           (i = 0 \<and> is_double (revenue (actors ! 0)) \<longrightarrow> av = revenue (actors ! 0)) \<and>
           py_round2 (PyFloat av) = Inr (Added_Value (?ms ! i)) \<and>
           num_is_round2_of (PyFloat av) (Added_Value (?ms ! i)))"
    if i: "i < length actors" for i
  proof -
    let ?p = "if i = 0 then PyInt 0 else PyFloat (revenue (actors ! (i - 1)))"
    let ?av = "fsub (revenue (actors ! i)) (prev_of actors i)"
    from i have le: "i \<le> length actors" "Suc i \<le> length actors"
      by simp_all
    have row: "Added_Value (?ms ! i) = rounded_num (PyFloat ?av)"
      by (simp add: rows_nth [OF i] row_of_sel)
    have next_prev: "prev_revenue_at actors (Suc i) = Inr (PyFloat (revenue (actors ! i)))"
      using prev_revenue_at_closed [OF le(2)] by simp
    have prev: "prev_revenue_at actors i = Inr ?p"
      by (rule prev_revenue_at_closed [OF le(1)])
    have step: "added_value (actors ! i) ?p = Inr (PyFloat ?av)"
      by (simp add: added_value_closed prev_of_def)
    have at: "added_value_at actors i = Inr (PyFloat ?av)"
      by (rule added_value_at_closed [OF i])
    have form: "?av = fsub (revenue (actors ! i))
                  (if i = 0 then Finite 0 else revenue (actors ! (i - 1)))"
      by (simp add: prev_of_def)
    have first: "i = 0 \<and> is_double (revenue (actors ! 0)) \<longrightarrow> ?av = revenue (actors ! 0)"
      by (auto simp add: prev_of_def fsub_zero_right)
    have round: "py_round2 (PyFloat ?av) = Inr (Added_Value (?ms ! i))"
      unfolding row by (rule py_round2_ok) (simp add: in_range_fsub)
    have pin: "num_is_round2_of (PyFloat ?av) (Added_Value (?ms ! i))"
      unfolding row by (rule num_is_round2_of_rounded)
    from next_prev prev step at form first round pin show ?thesis
      by blast
  qed
  with start show ?thesis
    using computeMetrics_closed [of actors] by blast
qed

theorem added_value_chain_witness:
  "\<exists>ms. computeMetrics tie_chain = Inr ms \<and>
     added_value_at tie_chain 0 = Inr (PyFloat (Finite (1 / 2))) \<and>
     prev_revenue_at tie_chain 1 = Inr (PyFloat (Finite (1 / 2))) \<and>
     added_value_at tie_chain 1 = Inr (PyFloat (Finite 4503599627370496)) \<and>
     Added_Value (ms ! 1) = PyFloat (Finite 4503599627370496)"
proof -
  from added_value_chain [of tie_chain]
  obtain ms where run: "computeMetrics tie_chain = Inr ms"
    and chain: "\<forall>i<length tie_chain.
        prev_revenue_at tie_chain (Suc i) = Inr (PyFloat (revenue (tie_chain ! i))) \<and>
        (\<exists>p av.
           prev_revenue_at tie_chain i = Inr p \<and>
           added_value (tie_chain ! i) p = Inr (PyFloat av) \<and>
           added_value_at tie_chain i = Inr (PyFloat av) \<and>
           av = fsub (revenue (tie_chain ! i))
                  (if i = 0 then Finite 0 else revenue (tie_chain ! (i - 1))) \<and>
           (i = 0 \<and> is_double (revenue (tie_chain ! 0)) \<longrightarrow> av = revenue (tie_chain ! 0)) \<and>
           py_round2 (PyFloat av) = Inr (Added_Value (ms ! i)) \<and>
           num_is_round2_of (PyFloat av) (Added_Value (ms ! i)))"
    by blast
  have len: "(0::nat) < length tie_chain" "(1::nat) < length tie_chain"
    by (simp_all add: tie_chain_def)
  have half: "is_double (revenue (tie_chain ! 0))"
    by (simp add: tie_chain_def eval_double to_double_at [of "-1"])
  from chain len(1) half obtain av0 where
    at0: "added_value_at tie_chain 0 = Inr (PyFloat av0)"
    and av0: "av0 = revenue (tie_chain ! 0)"
    and next_prev: "prev_revenue_at tie_chain (Suc 0) = Inr (PyFloat (revenue (tie_chain ! 0)))"
    by blast
  have rev0: "revenue (tie_chain ! 0) = Finite (1 / 2)"
    by (simp add: tie_chain_def)
  from chain len(2) obtain av1 where
    at1: "added_value_at tie_chain 1 = Inr (PyFloat av1)"
    and av1: "av1 = fsub (revenue (tie_chain ! 1))
                  (if (1::nat) = 0 then Finite 0 else revenue (tie_chain ! (1 - 1)))"
    and field: "py_round2 (PyFloat av1) = Inr (Added_Value (ms ! 1))"
    by blast
  have av1_val: "av1 = Finite 4503599627370496"
    unfolding av1 by (simp add: tie_chain_def eval_double to_double_at [of 52])
  from field have "Added_Value (ms ! 1) = PyFloat (Finite 4503599627370496)"
    unfolding av1_val
    by (simp add: and_then_def round2_def eval_double to_double_at [of 52])
  with run at0 av0 rev0 next_prev at1 av1_val show ?thesis
    by simp
qed

subsection \<open>Length and order\<close>

text \<open>
  C4. For every chain the table has as many rows as the chain has actors, in the same
  order: the row at each position carries the name, cost and revenue of the actor at that
  position unchanged, and the gross income derived from that actor.
\<close>

theorem length_and_order_kept:
  "\<exists>ms. computeMetrics actors = Inr ms \<and>
     length ms = length actors \<and>
     map Actor ms = map name actors \<and>
     map Buying_Price ms = map (\<lambda>a. PyFloat (cost a)) actors \<and>
     map Selling_Price ms = map (\<lambda>a. PyFloat (revenue a)) actors \<and>
     map Gross_Income ms = map (\<lambda>a. PyFloat (fsub (revenue a) (cost a))) actors"
  using computeMetrics_closed [of actors] length_rows_of rows_of_maps by simp

subsection \<open>Rounding of the emitted fields\<close>

text \<open>
  C5. In the row emitted for the actor at any position, the gross margin, the added value
  and the value share are Python's \<open>round(v, 2)\<close> of the values computed in the
  iteration: each is the float nearest to a multiple of 1/100 within 1/200 of the
  unrounded value (an int 0 stays the int 0). The gross income is the float difference
  revenue - cost as computed, not rounded to two decimals, and name, cost and revenue are
  passed through.
\<close>

theorem emitted_fields_rounded:
  "\<exists>ms. computeMetrics actors = Inr ms \<and>
     (\<forall>i<length actors.
        \<exists>gm av vs.
          gross_margin_at actors i = Inr gm \<and>
          added_value_at actors i = Inr av \<and>
          value_share_at actors i = Inr vs \<and>
          py_round2 gm = Inr (Gross_Margin (ms ! i)) \<and>
          py_round2 av = Inr (Added_Value (ms ! i)) \<and>
          py_round2 vs = Inr (Value_Share (ms ! i)) \<and>
          num_is_round2_of gm (Gross_Margin (ms ! i)) \<and>
          num_is_round2_of av (Added_Value (ms ! i)) \<and>
          num_is_round2_of vs (Value_Share (ms ! i)) \<and>
          gross_income (actors ! i) = Inr (Gross_Income (ms ! i)) \<and>
          Gross_Income (ms ! i) =
            PyFloat (fsub (revenue (actors ! i)) (cost (actors ! i))) \<and>
          Actor (ms ! i) = name (actors ! i) \<and>
          Buying_Price (ms ! i) = PyFloat (cost (actors ! i)) \<and>
          Selling_Price (ms ! i) = PyFloat (revenue (actors ! i)))"
proof -
  let ?ms = "rows_of (revenue (last actors)) (Finite 0) actors"
  have "\<exists>gm av vs.
          gross_margin_at actors i = Inr gm \<and>
          added_value_at actors i = Inr av \<and>
          value_share_at actors i = Inr vs \<and>
          py_round2 gm = Inr (Gross_Margin (?ms ! i)) \<and>
          py_round2 av = Inr (Added_Value (?ms ! i)) \<and>
          py_round2 vs = Inr (Value_Share (?ms ! i)) \<and>
          num_is_round2_of gm (Gross_Margin (?ms ! i)) \<and>
          num_is_round2_of av (Added_Value (?ms ! i)) \<and>
          num_is_round2_of vs (Value_Share (?ms ! i)) \<and>
          gross_income (actors ! i) = Inr (Gross_Income (?ms ! i)) \<and>
          Gross_Income (?ms ! i) =
            PyFloat (fsub (revenue (actors ! i)) (cost (actors ! i))) \<and>
          Actor (?ms ! i) = name (actors ! i) \<and>
          Buying_Price (?ms ! i) = PyFloat (cost (actors ! i)) \<and>
          Selling_Price (?ms ! i) = PyFloat (revenue (actors ! i))"
    if i: "i < length actors" for i
  proof -
    let ?a = "actors ! i"
    let ?gm = "margin_of ?a"
    let ?av = "PyFloat (fsub (revenue ?a) (prev_of actors i))"
    let ?vs = "share_of (fsub (revenue ?a) (prev_of actors i)) (revenue (last actors))"
    have rows: "Gross_Margin (?ms ! i) = rounded_num ?gm"
      "Added_Value (?ms ! i) = rounded_num ?av"
      "Value_Share (?ms ! i) = rounded_num ?vs"
      "Gross_Income (?ms ! i) = PyFloat (fsub (revenue ?a) (cost ?a))"
      "Actor (?ms ! i) = name ?a"
      "Buying_Price (?ms ! i) = PyFloat (cost ?a)"
      "Selling_Price (?ms ! i) = PyFloat (revenue ?a)"
      by (simp_all add: rows_nth [OF i] row_of_sel)
    have "gross_margin_at actors i = Inr ?gm"
      by (rule gross_margin_at_closed)
    moreover have "added_value_at actors i = Inr ?av"
      by (rule added_value_at_closed [OF i])
    moreover have "value_share_at actors i = Inr ?vs"
      by (rule value_share_at_closed [OF i])
    moreover have "py_round2 ?gm = Inr (Gross_Margin (?ms ! i))"
      unfolding rows by (rule py_round2_ok) (rule num_in_range_margin)
    moreover have "py_round2 ?av = Inr (Added_Value (?ms ! i))"
      unfolding rows by (rule py_round2_ok) (simp add: in_range_fsub)
    moreover have "py_round2 ?vs = Inr (Value_Share (?ms ! i))"
      unfolding rows by (rule py_round2_ok) (rule num_in_range_share)
    moreover have "num_is_round2_of ?gm (Gross_Margin (?ms ! i))"
      "num_is_round2_of ?av (Added_Value (?ms ! i))"
      "num_is_round2_of ?vs (Value_Share (?ms ! i))"
      unfolding rows by (rule num_is_round2_of_rounded)+
    moreover have "gross_income ?a = Inr (Gross_Income (?ms ! i))"
      unfolding rows by (rule gross_income_closed)
    ultimately show ?thesis
      using rows(4-7) by blast
  qed
  then show ?thesis
    using computeMetrics_closed [of actors] by blast
qed

theorem emitted_fields_rounded_witness:
  "\<exists>ms. computeMetrics cents_chain = Inr ms \<and>
     Selling_Price (ms ! 0) = PyFloat (to_double (1999 / 100)) \<and>
     Buying_Price (ms ! 0) = PyFloat (to_double (7 / 100)) \<and>
     Gross_Income (ms ! 0) = PyFloat (Finite (5606981536076267 / 281474976710656)) \<and>
     Gross_Income (ms ! 0) \<noteq> PyFloat (to_double (1992 / 100)) \<and>
     gross_margin_at cents_chain 0 = Inr (PyFloat (Finite (7012233036613641 / 70368744177664))) \<and>
     Gross_Margin (ms ! 0) = PyFloat (to_double (9965 / 100))"
proof -
  from emitted_fields_rounded [of cents_chain]
  obtain ms where run: "computeMetrics cents_chain = Inr ms"
    and fields: "\<forall>i<length cents_chain.
        \<exists>gm av vs.
          gross_margin_at cents_chain i = Inr gm \<and>
          added_value_at cents_chain i = Inr av \<and>
          value_share_at cents_chain i = Inr vs \<and>
          py_round2 gm = Inr (Gross_Margin (ms ! i)) \<and>
          py_round2 av = Inr (Added_Value (ms ! i)) \<and>
          py_round2 vs = Inr (Value_Share (ms ! i)) \<and>
          num_is_round2_of gm (Gross_Margin (ms ! i)) \<and>
          num_is_round2_of av (Added_Value (ms ! i)) \<and>
          num_is_round2_of vs (Value_Share (ms ! i)) \<and>
          gross_income (cents_chain ! i) = Inr (Gross_Income (ms ! i)) \<and>
          Gross_Income (ms ! i) =
            PyFloat (fsub (revenue (cents_chain ! i)) (cost (cents_chain ! i))) \<and>
          Actor (ms ! i) = name (cents_chain ! i) \<and>
          Buying_Price (ms ! i) = PyFloat (cost (cents_chain ! i)) \<and>
          Selling_Price (ms ! i) = PyFloat (revenue (cents_chain ! i))"
    by blast
  have "(0::nat) < length cents_chain"
    by (simp add: cents_chain_def)
  with fields obtain gm where
    at: "gross_margin_at cents_chain 0 = Inr gm"
    and field: "py_round2 gm = Inr (Gross_Margin (ms ! 0))"
    and income: "Gross_Income (ms ! 0) =
            PyFloat (fsub (revenue (cents_chain ! 0)) (cost (cents_chain ! 0)))"
    and buy: "Buying_Price (ms ! 0) = PyFloat (cost (cents_chain ! 0))"
    and sell: "Selling_Price (ms ! 0) = PyFloat (revenue (cents_chain ! 0))"
    by blast
  have rev: "to_double (1999 / 100) = Finite (5626684784446013 / 281474976710656)"
    by (simp add: eval_double to_double_at [of 4])
  have cst: "to_double (7 / 100) = Finite (1261007895663739 / 18014398509481984)"
    by (simp add: eval_double to_double_at [of "-4"])
  have c1992: "to_double (1992 / 100) = Finite (2803490768038134 / 140737488355328)"
    by (simp add: eval_double to_double_at [of 4])
  have a: "cents_chain ! 0 = \<lparr>name = ''A'',
      cost = Finite (1261007895663739 / 18014398509481984),
      revenue = Finite (5626684784446013 / 281474976710656)\<rparr>"
    by (simp add: cents_chain_def rev cst)
  have gi: "fsub (revenue (cents_chain ! 0)) (cost (cents_chain ! 0)) =
      Finite (5606981536076267 / 281474976710656)"
    unfolding a by (simp add: eval_double to_double_at [of 4])
  have "gross_margin_at cents_chain 0 =
      Inr (PyFloat (Finite (7012233036613641 / 70368744177664)))"
    unfolding gross_margin_at_closed margin_of_def float_margin_def gi
    unfolding a by (simp add: eval_double to_double_at [of "-1"] to_double_at [of 6])
  with at have gm_val: "gm = PyFloat (Finite (7012233036613641 / 70368744177664))"
    by simp
  have pct: "to_double (9965 / 100) = Finite (3506122678652109 / 35184372088832)"
    by (simp add: eval_double to_double_at [of 6])
  from field have "Gross_Margin (ms ! 0) = PyFloat (to_double (9965 / 100))"
    unfolding gm_val pct
    by (simp add: and_then_def round2_def eval_double to_double_at [of 6])
  with run income gi buy sell a rev cst c1992 at gm_val show ?thesis
    by simp
qed

subsection \<open>The example chain\<close>

text \<open>
  C6. For the chain F (cost 0, revenue 10), P (cost 10, revenue 25), R (cost 25,
  revenue 40) the retail price is 40 and the table is exactly: F with gross income 10,
  gross margin 100, added value 10, value share 25; P with 15, 60, 15, 37.5; R with 15,
  37.5, 15, 37.5.
\<close>

theorem chain_FPR_rows:
  "retail_price chain_FPR = PyFloat (Finite 40) \<and>
   computeMetrics chain_FPR = Inr
  [\<lparr>Actor = ''F'', Buying_Price = PyFloat (Finite 0), Selling_Price = PyFloat (Finite 10),
     Gross_Income = PyFloat (Finite 10), Gross_Margin = PyFloat (Finite 100),
     Added_Value = PyFloat (Finite 10), Value_Share = PyFloat (Finite 25)\<rparr>,
   \<lparr>Actor = ''P'', Buying_Price = PyFloat (Finite 10), Selling_Price = PyFloat (Finite 25),
     Gross_Income = PyFloat (Finite 15), Gross_Margin = PyFloat (Finite 60),
     Added_Value = PyFloat (Finite 15), Value_Share = PyFloat (Finite (75 / 2))\<rparr>,
   \<lparr>Actor = ''R'', Buying_Price = PyFloat (Finite 25), Selling_Price = PyFloat (Finite 40),
     Gross_Income = PyFloat (Finite 15), Gross_Margin = PyFloat (Finite (75 / 2)),
     Added_Value = PyFloat (Finite 15), Value_Share = PyFloat (Finite (75 / 2))\<rparr>]"
  by (simp add: chain_FPR_def eval_prog eval_double to_double_zero
      to_double_at [of "-2"] to_double_at [of "-1"] to_double_at [of 0] to_double_at [of 3]
      to_double_at [of 4] to_double_at [of 5] to_double_at [of 6])

subsection \<open>Recommendations\<close>

text \<open>
  C7. The recommendations of a table are, row by row in the order of the table, the
  low gross margin warning of the row exactly when its gross margin is below 20, followed
  by the small value share warning exactly when its value share is below 10. Each warning
  is the text of the script around the actor's name in quotes and the printed value of
  the field. One row therefore gives zero, one or two messages; a row with gross margin
  15 and value share 5 gives exactly the two warnings, and a row with gross margin 50 and
  value share 30 gives none.
\<close>

theorem recommendations_thresholds:
  "recommendations fmt rows =
     concat (map (\<lambda>r.
       (if py_less_int (Gross_Margin r) 20
        then [''Actor '' @ [CHR 0x27] @ Actor r @ [CHR 0x27] @
              '' has a low gross margin ('' @ fmt (Gross_Margin r) @
              ''%). Consider reducing input costs or increasing selling price.'']
        else []) @
       (if py_less_int (Value_Share r) 10
        then [''Actor '' @ [CHR 0x27] @ Actor r @ [CHR 0x27] @
              '' has a small value share ('' @ fmt (Value_Share r) @
              ''%). Consider improving value addition strategies.'']
        else [])) rows) \<and>
   length (recommendations fmt [r]) =
     (if py_less_int (Gross_Margin r) 20 then 1 else 0) +
     (if py_less_int (Value_Share r) 10 then 1 else 0) \<and>
   (Gross_Margin r = PyFloat (Finite 15) \<and> Value_Share r = PyFloat (Finite 5) \<longrightarrow>
      recommendations fmt [r] =
        [''Actor '' @ [CHR 0x27] @ Actor r @ [CHR 0x27] @
         '' has a low gross margin ('' @ fmt (PyFloat (Finite 15)) @
         ''%). Consider reducing input costs or increasing selling price.'',
         ''Actor '' @ [CHR 0x27] @ Actor r @ [CHR 0x27] @
         '' has a small value share ('' @ fmt (PyFloat (Finite 5)) @
         ''%). Consider improving value addition strategies.'']) \<and>
   (Gross_Margin r = PyFloat (Finite 50) \<and> Value_Share r = PyFloat (Finite 30) \<longrightarrow>
      recommendations fmt [r] = [])"
  unfolding recommendations_def recommendations_loop_closed
    low_margin_message_def low_share_message_def
  by simp

theorem recommendations_thresholds_witness:
  "recommendations print_example [weak_row] =
     [''Actor '' @ [CHR 0x27] @ ''W'' @ [CHR 0x27] @
      '' has a low gross margin (15.0%). Consider reducing input costs or increasing selling price.'',
      ''Actor '' @ [CHR 0x27] @ ''W'' @ [CHR 0x27] @
      '' has a small value share (5.0%). Consider improving value addition strategies.''] \<and>
   recommendations print_example [strong_row] = []"
proof -
  have weak: "Gross_Margin weak_row = PyFloat (Finite 15) \<and> Value_Share weak_row = PyFloat (Finite 5)"
    by (simp add: weak_row_def)
  have strong: "Gross_Margin strong_row = PyFloat (Finite 50) \<and>
      Value_Share strong_row = PyFloat (Finite 30)"
    by (simp add: strong_row_def)
  from recommendations_thresholds [of print_example "[]" weak_row] weak
  have two: "recommendations print_example [weak_row] =
        [''Actor '' @ [CHR 0x27] @ Actor weak_row @ [CHR 0x27] @
         '' has a low gross margin ('' @ print_example (PyFloat (Finite 15)) @
         ''%). Consider reducing input costs or increasing selling price.'',
         ''Actor '' @ [CHR 0x27] @ Actor weak_row @ [CHR 0x27] @
         '' has a small value share ('' @ print_example (PyFloat (Finite 5)) @
         ''%). Consider improving value addition strategies.'']"
    by blast
  from recommendations_thresholds [of print_example "[]" strong_row] strong
  have none: "recommendations print_example [strong_row] = []"
    by blast
  from two none show ?thesis
    by (simp add: print_example_def weak_row_def)
qed

subsection \<open>Totality, determinism and purity\<close>



subsection \<open>Names do not interfere\<close>

text \<open>
  C10. Two chains with the same costs and the same revenues, position by position, whatever
  their names, give tables with equal numeric fields (cost, revenue, gross income, gross
  margin, added value, value share) at every position; the same positions fall below the
  two recommendation thresholds, and the same number of recommendations is produced.
\<close>

theorem names_do_not_interfere:
  assumes "map cost as = map cost bs" and "map revenue as = map revenue bs"
  shows "\<exists>ms ns. computeMetrics as = Inr ms \<and> computeMetrics bs = Inr ns \<and>
     map numeric_fields ms = map numeric_fields ns \<and>
     map (\<lambda>r. (py_less_int (Gross_Margin r) 20, py_less_int (Value_Share r) 10)) ms =
     map (\<lambda>r. (py_less_int (Gross_Margin r) 20, py_less_int (Value_Share r) 10)) ns \<and>
     length (recommendations fmt ms) = length (recommendations fmt ns)"
proof -
  let ?ms = "rows_of (revenue (last as)) (Finite 0) as"
  let ?ns = "rows_of (revenue (last bs)) (Finite 0) bs"
  have numeric: "map numeric_fields ?ms = map numeric_fields ?ns"
    using rows_of_names_irrelevant [OF assms, of "revenue (last bs)" "Finite 0"]
      last_revenue_names_irrelevant [OF assms(2)]
    by simp
  have flags: "map (\<lambda>r. (py_less_int (Gross_Margin r) 20, py_less_int (Value_Share r) 10)) ?ms =
        map (\<lambda>r. (py_less_int (Gross_Margin r) 20, py_less_int (Value_Share r) 10)) ?ns"
    by (rule map_eq_factor [OF numeric]) (simp add: numeric_fields_def)
  have "map (\<lambda>r. (if py_less_int (Gross_Margin r) 20 then 1 else 0) +
                  (if py_less_int (Value_Share r) 10 then 1 else (0::nat))) ?ms =
        map (\<lambda>r. (if py_less_int (Gross_Margin r) 20 then 1 else 0) +
                  (if py_less_int (Value_Share r) 10 then 1 else (0::nat))) ?ns"
    by (rule map_eq_factor [OF numeric]) (simp add: numeric_fields_def)
  then have "length (recommendations fmt ?ms) = length (recommendations fmt ?ns)"
    by (simp only: length_recommendations)
  with numeric flags computeMetrics_closed [of as] computeMetrics_closed [of bs]
  show ?thesis
    by blast
qed

theorem names_do_not_interfere_witness:
  "\<exists>ms ns. computeMetrics chain_FPR = Inr ms \<and> computeMetrics renamed_FPR = Inr ns \<and>
     map numeric_fields ms = map numeric_fields ns \<and>
     map (\<lambda>r. (py_less_int (Gross_Margin r) 20, py_less_int (Value_Share r) 10)) ms =
     map (\<lambda>r. (py_less_int (Gross_Margin r) 20, py_less_int (Value_Share r) 10)) ns \<and>
     length (recommendations (\<lambda>v. []) ms) = length (recommendations (\<lambda>v. []) ns)"
proof -
  have costs: "map cost chain_FPR = map cost renamed_FPR"
    by (simp add: chain_FPR_def renamed_FPR_def)
  have revenues: "map revenue chain_FPR = map revenue renamed_FPR"
    by (simp add: chain_FPR_def renamed_FPR_def)
  from names_do_not_interfere [OF costs revenues] show ?thesis .
qed

end
